theory Spec2Isabelle
  imports Main
begin

text \<open>
  The credential lifecycle of the HashiCups secrets engine for Vault: configuration and
  role storage, the cached upstream client, token issuance, and the revoke and renew
  callbacks. Each Go function is a HOL function of the same name over an explicit
  instance state; the host's storage, the upstream client library and the identifier
  source are parameters.
\<close>

section \<open>Values, outcomes and durations\<close>

text \<open>
  Go's \<open>interface{}\<close> values, as they occur in \<open>map[string]interface{}\<close>: a string, an
  int, or a value of any other dynamic type (bool, float, nil, nested map ...).
\<close>

datatype val = VString string | VInt int | VOther

text \<open>
  A Go call returning \<open>(T, error)\<close> either yields its value (\<open>Ok\<close>), returns a non-nil
  error (\<open>Fault\<close>, carrying the message; \<open>fmt.Errorf("p: %w", err)\<close> prefixes it), or
  panics at run time (\<open>Panic\<close>: a failed unchecked type assertion, a nil dereference).
\<close>

datatype 'a outcome = Ok 'a | Fault string | Panic string

text \<open>
  \<open>time.Duration\<close> is an int64 count of nanoseconds; \<open>time.Duration(n) * time.Second\<close>
  multiplies in int64 and wraps around.
\<close>

type_synonym duration = int

definition wrap64 :: "int \<Rightarrow> int" where
  "wrap64 x = (x + 2 ^ 63) mod 2 ^ 64 - 2 ^ 63"

definition Second :: duration where
  "Second = 1000000000"

definition seconds :: "int \<Rightarrow> duration" where
  "seconds n = wrap64 (n * Second)"

section \<open>Data model\<close>

record myRoleEntry =
  role_Username :: string
  role_UserID :: int
  role_Token :: string
  role_TokenID :: string
  role_TTL :: duration
  role_MaxTTL :: duration

record myConfig =
  cfg_Username :: string
  cfg_Password :: string
  cfg_URL :: string

text \<open>\<open>myClient\<close> embeds \<open>*hashicups.Client\<close>: endpoint, credentials and the current JWT.\<close>

record myClient =
  client_HostURL :: string
  client_Username :: string
  client_Password :: string
  client_Token :: string

record myToken =
  tok_UserID :: int
  tok_Username :: string
  tok_TokenID :: string
  tok_Token :: string

text \<open>The upstream sign-in response (\<open>hashicups.AuthResponse\<close>), as far as the code reads it.\<close>

record authResponse =
  auth_UserID :: int
  auth_Token :: string

text \<open>\<open>logical.Secret\<close>: the lease descriptor the host stores and replays.\<close>

record secret =
  sec_TTL :: duration
  sec_MaxTTL :: duration
  sec_InternalData :: "string \<rightharpoonup> val"

text \<open>
  \<open>*logical.Response\<close>: \<open>logical.ErrorResponse(text)\<close> is the user-facing error response
  (returned with a nil error); otherwise a response carries data and possibly a secret.
  A nil response is \<open>None\<close> at the use site.
\<close>

datatype response = ErrorResponse string | Response "string \<rightharpoonup> val" "secret option"

datatype operation = CreateOperation | UpdateOperation | ReadOperation | DeleteOperation

text \<open>
  \<open>framework.FieldData\<close> after the schema layer has parsed the raw input: a field is
  \<open>None\<close> when the request did not supply it (\<open>GetOk\<close> reports \<open>ok = false\<close>), and
  otherwise has the type of its schema (\<open>TypeLowerCaseString\<close>, \<open>TypeString\<close>,
  \<open>TypeDurationSecond\<close> as an int of seconds).
\<close>

record fieldData =
  fd_name :: "string option"
  fd_username :: "string option"
  fd_password :: "string option"
  fd_url :: "string option"
  fd_ttl :: "int option"
  fd_max_ttl :: "int option"

text \<open>
  A storage entry holds the JSON written by \<open>logical.StorageEntryJSON\<close>. It is modelled by
  the struct that was serialised; \<open>BadJSON m\<close> stands for bytes that \<open>DecodeJSON\<close>
  rejects with message \<open>m\<close>. Decoding into the other struct keeps the one JSON key both
  share (\<open>username\<close>), ignores unknown keys and leaves absent fields zero, as
  \<open>encoding/json\<close> does.
\<close>

datatype entry = RoleJSON myRoleEntry | ConfigJSON myConfig | BadJSON string

definition new_myRoleEntry :: myRoleEntry where
  "new_myRoleEntry = \<lparr>role_Username = [], role_UserID = 0, role_Token = [],
     role_TokenID = [], role_TTL = 0, role_MaxTTL = 0\<rparr>"

definition new_myConfig :: myConfig where
  "new_myConfig = \<lparr>cfg_Username = [], cfg_Password = [], cfg_URL = []\<rparr>"

fun DecodeJSON_role :: "entry \<Rightarrow> string + myRoleEntry" where
  "DecodeJSON_role (RoleJSON r) = Inr r"
| "DecodeJSON_role (ConfigJSON c) = Inr (new_myRoleEntry\<lparr>role_Username := cfg_Username c\<rparr>)"
| "DecodeJSON_role (BadJSON m) = Inl m"

fun DecodeJSON_config :: "entry \<Rightarrow> string + myConfig" where
  "DecodeJSON_config (ConfigJSON c) = Inr c"
| "DecodeJSON_config (RoleJSON r) = Inr (new_myConfig\<lparr>cfg_Username := role_Username r\<rparr>)"
| "DecodeJSON_config (BadJSON m) = Inl m"

section \<open>The plugin instance and its collaborators\<close>

text \<open>Every call into the upstream client library is recorded, in order.\<close>

datatype call = NewClient_call string string string | SignIn_call | SignOut_call string

text \<open>
  The state one backend instance works on: the host's key-value storage, the cached
  client \<open>b.client\<close> (nil is \<open>None\<close>), and the trace of upstream calls made so far.
  The read/write lock is not modelled: handlers run one at a time here.
\<close>

record world =
  storage :: "string \<rightharpoonup> entry"
  client :: "myClient option"
  calls :: "call list"

text \<open>
  What the collaborators answer during one invocation: storage faults per key, the
  upstream library (\<open>hashicups.NewClient\<close>, \<open>SignIn\<close>, \<open>SignOut\<close>) and the identifier
  \<open>uuid.New().String()\<close> draws.
\<close>

record env =
  Get_err :: "string \<Rightarrow> string option"
  Put_err :: "string \<Rightarrow> string option"
  Delete_err :: "string \<Rightarrow> string option"
  hashicups_NewClient :: "string \<Rightarrow> string \<Rightarrow> string \<Rightarrow> string + myClient"
  hashicups_SignIn :: "myClient \<Rightarrow> string + authResponse"
  hashicups_SignOut :: "myClient \<Rightarrow> string option"
  uuid_New :: string

definition storage_Get :: "env \<Rightarrow> world \<Rightarrow> string \<Rightarrow> entry option outcome" where
  "storage_Get e w k = (case Get_err e k of Some m \<Rightarrow> Fault m | None \<Rightarrow> Ok (storage w k))"

definition storage_Put :: "env \<Rightarrow> world \<Rightarrow> string \<Rightarrow> entry \<Rightarrow> string option \<times> world" where
  "storage_Put e w k v =
     (case Put_err e k of Some m \<Rightarrow> (Some m, w)
      | None \<Rightarrow> (None, w\<lparr>storage := (storage w)(k \<mapsto> v)\<rparr>))"

definition storage_Delete :: "env \<Rightarrow> world \<Rightarrow> string \<Rightarrow> string option \<times> world" where
  "storage_Delete e w k =
     (case Delete_err e k of Some m \<Rightarrow> (Some m, w)
      | None \<Rightarrow> (None, w\<lparr>storage := (storage w)(k := None)\<rparr>))"

section \<open>Role store\<close>

definition getRole :: "env \<Rightarrow> world \<Rightarrow> string \<Rightarrow> myRoleEntry option outcome" where
  "getRole e w name =
     (if name = [] then Fault ''missing role name''
      else case storage_Get e w (''role/'' @ name) of
             Fault m \<Rightarrow> Fault m
           | Panic m \<Rightarrow> Panic m
           | Ok None \<Rightarrow> Ok None
           | Ok (Some en) \<Rightarrow>
               (case DecodeJSON_role en of Inl m \<Rightarrow> Fault m | Inr role \<Rightarrow> Ok (Some role)))"

text \<open>
  \<open>setRole\<close>: \<open>StorageEntryJSON\<close> cannot fail on this struct and never returns nil, so
  only the \<open>Put\<close> can report an error.
\<close>

definition setRole :: "env \<Rightarrow> world \<Rightarrow> string \<Rightarrow> myRoleEntry \<Rightarrow> string option \<times> world" where
  "setRole e w name roleEntry = storage_Put e w (''role/'' @ name) (RoleJSON roleEntry)"

definition pathRolesWrite ::
  "env \<Rightarrow> world \<Rightarrow> operation \<Rightarrow> fieldData \<Rightarrow> response option outcome \<times> world" where
  "pathRolesWrite e w op d =
     (case fd_name d of
        None \<Rightarrow> (Ok (Some (ErrorResponse ''missing role name'')), w)
      | Some name \<Rightarrow>
          (case getRole e w name of
             Fault m \<Rightarrow> (Fault m, w)
           | Panic m \<Rightarrow> (Panic m, w)
           | Ok found \<Rightarrow>
               (let roleEntry0 = (case found of None \<Rightarrow> new_myRoleEntry | Some r \<Rightarrow> r);
                    createOperation = (op = CreateOperation)
                in if fd_username d = None \<and> createOperation
                   then (Fault ''missing username in role'', w)
                   else
                     (let roleEntry1 = (case fd_username d of
                                          Some username \<Rightarrow> roleEntry0\<lparr>role_Username := username\<rparr>
                                        | None \<Rightarrow> roleEntry0);
                          roleEntry2 = (case fd_ttl d of
                                          Some ttlRaw \<Rightarrow> roleEntry1\<lparr>role_TTL := seconds ttlRaw\<rparr>
                                        | None \<Rightarrow> if createOperation
                                                  then roleEntry1\<lparr>role_TTL := seconds 0\<rparr>
                                                  else roleEntry1);
                          roleEntry3 = (case fd_max_ttl d of
                                          Some maxTTLRaw \<Rightarrow> roleEntry2\<lparr>role_MaxTTL := seconds maxTTLRaw\<rparr>
                                        | None \<Rightarrow> if createOperation
                                                  then roleEntry2\<lparr>role_MaxTTL := seconds 0\<rparr>
                                                  else roleEntry2)
                      in if role_MaxTTL roleEntry3 \<noteq> 0 \<and> role_TTL roleEntry3 > role_MaxTTL roleEntry3
                         then (Ok (Some (ErrorResponse ''ttl cannot be greater than max_ttl'')), w)
                         else (case setRole e w name roleEntry3 of
                                 (Some m, w') \<Rightarrow> (Fault m, w')
                               | (None, w') \<Rightarrow> (Ok None, w'))))))"

definition pathRolesDelete ::
  "env \<Rightarrow> world \<Rightarrow> fieldData \<Rightarrow> response option outcome \<times> world" where
  "pathRolesDelete e w d =
     (case fd_name d of
        None \<Rightarrow> (Ok (Some (ErrorResponse ''missing role name'')), w)
      | Some name \<Rightarrow>
          (case storage_Delete e w (''role/'' @ name) of
             (Some m, w') \<Rightarrow> (Fault (''error deleting hashiCups role: '' @ m), w')
           | (None, w') \<Rightarrow> (Ok None, w')))"

section \<open>Secret lifecycle: renew\<close>

text \<open>
  \<open>tokenRenew\<close> works on \<open>req.Secret\<close> through a pointer: the response shares the lease
  object, so the assignments to \<open>resp.Secret.TTL\<close> and \<open>resp.Secret.MaxTTL\<close> change the
  lease passed in. The model returns the outcome, the lease object after the call, and
  the (untouched) instance state. \<open>roleRaw.(string)\<close> is an unchecked type assertion.
\<close>

definition tokenRenew ::
  "env \<Rightarrow> world \<Rightarrow> secret \<Rightarrow> response option outcome \<times> secret \<times> world" where
  "tokenRenew e w sec =
     (case sec_InternalData sec ''role'' of
        None \<Rightarrow> (Fault ''secret is missing role internal data'', sec, w)
      | Some roleRaw \<Rightarrow>
          (case roleRaw of
             VString role \<Rightarrow>
               (case getRole e w role of
                  Fault m \<Rightarrow> (Fault (''error retrieving role: '' @ m), sec, w)
                | Panic m \<Rightarrow> (Panic m, sec, w)
                | Ok None \<Rightarrow> (Fault ''error retrieving role: role is nil'', sec, w)
                | Ok (Some roleEntry) \<Rightarrow>
                    (let sec1 = (if role_TTL roleEntry > 0
                                 then sec\<lparr>sec_TTL := role_TTL roleEntry\<rparr> else sec);
                         sec2 = (if role_MaxTTL roleEntry > 0
                                 then sec1\<lparr>sec_MaxTTL := role_MaxTTL roleEntry\<rparr> else sec1)
                     in (Ok (Some (Response Map.empty (Some sec2))), sec2, w)))
           | _ \<Rightarrow> (Panic ''interface conversion: interface {} is not string'', sec, w)))"

section \<open>Configuration store\<close>

definition configStoragePath :: string where
  "configStoragePath = ''config''"

definition getConfig :: "env \<Rightarrow> world \<Rightarrow> myConfig option outcome" where
  "getConfig e w =
     (case storage_Get e w configStoragePath of
        Fault m \<Rightarrow> Fault m
      | Panic m \<Rightarrow> Panic m
      | Ok None \<Rightarrow> Ok None
      | Ok (Some en) \<Rightarrow>
          (case DecodeJSON_config en of
             Inl m \<Rightarrow> Fault (''error reading root configuration: '' @ m)
           | Inr config \<Rightarrow> Ok (Some config)))"

text \<open>
  \<open>pathConfigRead\<close> reads \<open>config.Username\<close> and \<open>config.URL\<close> with no nil check:
  when \<open>getConfig\<close> returns \<open>(nil, nil)\<close> the field access dereferences a nil pointer.
\<close>

definition pathConfigRead :: "env \<Rightarrow> world \<Rightarrow> response option outcome \<times> world" where
  "pathConfigRead e w =
     (case getConfig e w of
        Fault m \<Rightarrow> (Fault m, w)
      | Panic m \<Rightarrow> (Panic m, w)
      | Ok None \<Rightarrow> (Panic ''invalid memory address or nil pointer dereference'', w)
      | Ok (Some config) \<Rightarrow>
          (Ok (Some (Response [''username'' \<mapsto> VString (cfg_Username config),
                               ''url'' \<mapsto> VString (cfg_URL config)] None)), w))"

definition reset :: "world \<Rightarrow> world" where
  "reset w = w\<lparr>client := None\<rparr>"

definition pathConfigDelete :: "env \<Rightarrow> world \<Rightarrow> response option outcome \<times> world" where
  "pathConfigDelete e w =
     (case storage_Delete e w configStoragePath of
        (Some m, w') \<Rightarrow> (Fault m, w')
      | (None, w') \<Rightarrow> (Ok None, reset w'))"

definition pathConfigWrite ::
  "env \<Rightarrow> world \<Rightarrow> operation \<Rightarrow> fieldData \<Rightarrow> response option outcome \<times> world" where
  "pathConfigWrite e w op d =
     (case getConfig e w of
        Fault m \<Rightarrow> (Fault m, w)
      | Panic m \<Rightarrow> (Panic m, w)
      | Ok found \<Rightarrow>
          (let createOperation = (op = CreateOperation)
           in if found = None \<and> \<not> createOperation
              then (Fault ''config not found during update operation'', w)
              else
                (let config0 = (case found of None \<Rightarrow> new_myConfig | Some c \<Rightarrow> c)
                 in if fd_username d = None \<and> createOperation
                    then (Fault ''missing username in configuration'', w)
                    else
                      (let config1 = (case fd_username d of
                                        Some username \<Rightarrow> config0\<lparr>cfg_Username := username\<rparr>
                                      | None \<Rightarrow> config0)
                       in if fd_url d = None \<and> createOperation
                          then (Fault ''missing url in configuration'', w)
                          else
                            (let config2 = (case fd_url d of
                                              Some url \<Rightarrow> config1\<lparr>cfg_URL := url\<rparr>
                                            | None \<Rightarrow> config1)
                             in if fd_password d = None \<and> createOperation
                                then (Fault ''missing password in configuration'', w)
                                else
                                  (let config3 = (case fd_password d of
                                                    Some password \<Rightarrow> config2\<lparr>cfg_Password := password\<rparr>
                                                  | None \<Rightarrow> config2)
                                   in case storage_Put e w configStoragePath (ConfigJSON config3) of
                                        (Some m, w') \<Rightarrow> (Fault m, w')
                                      | (None, w') \<Rightarrow> (Ok None, reset w')))))))"

section \<open>Upstream client cache\<close>

text \<open>
  \<open>newClient\<close> takes a \<open>*myConfig\<close> (nil is \<open>None\<close>). Only after the four checks does it
  call the client library, which is the one place a client is constructed.
\<close>

definition newClient :: "env \<Rightarrow> myConfig option \<Rightarrow> world \<Rightarrow> myClient outcome \<times> world" where
  "newClient e config w =
     (case config of
        None \<Rightarrow> (Fault ''client configuration was nil'', w)
      | Some c \<Rightarrow>
          if cfg_Username c = [] then (Fault ''client username was not defined'', w)
          else if cfg_Password c = [] then (Fault ''client password was not defined'', w)
          else if cfg_URL c = [] then (Fault ''client URL was not defined'', w)
          else
            (let w1 = w\<lparr>calls := calls w @
                         [NewClient_call (cfg_URL c) (cfg_Username c) (cfg_Password c)]\<rparr>
             in case hashicups_NewClient e (cfg_URL c) (cfg_Username c) (cfg_Password c) of
                  Inl m \<Rightarrow> (Fault m, w1)
                | Inr cl \<Rightarrow> (Ok cl, w1)))"

text \<open>
  \<open>getClient\<close>: \<open>b.client, err = newClient(config)\<close> assigns the cache in both cases, nil
  when construction failed.
\<close>

definition getClient :: "env \<Rightarrow> world \<Rightarrow> myClient outcome \<times> world" where
  "getClient e w =
     (case client w of
        Some c \<Rightarrow> (Ok c, w)
      | None \<Rightarrow>
          (case getConfig e w of
             Fault m \<Rightarrow> (Fault m, w)
           | Panic m \<Rightarrow> (Panic m, w)
           | Ok found \<Rightarrow>
               (let config = (case found of None \<Rightarrow> new_myConfig | Some c \<Rightarrow> c)
                in case newClient e (Some config) w of
                     (Ok cl, w1) \<Rightarrow> (Ok cl, w1\<lparr>client := Some cl\<rparr>)
                   | (Fault m, w1) \<Rightarrow> (Fault m, w1\<lparr>client := None\<rparr>)
                   | (Panic m, w1) \<Rightarrow> (Panic m, w1\<lparr>client := None\<rparr>))))"

section \<open>Credential issuer\<close>

definition myTokenType :: string where
  "myTokenType = ''my_token''"

text \<open>The package-level \<open>createToken\<close>: one upstream sign-in, then a fresh identifier.\<close>

definition createToken :: "env \<Rightarrow> myClient \<Rightarrow> string \<Rightarrow> world \<Rightarrow> myToken outcome \<times> world" where
  "createToken e c username w =
     (let w1 = w\<lparr>calls := calls w @ [SignIn_call]\<rparr>
      in case hashicups_SignIn e c of
           Inl m \<Rightarrow> (Fault (''error creating HashiCups token: '' @ m), w1)
         | Inr response \<Rightarrow>
             (Ok \<lparr>tok_UserID = auth_UserID response, tok_Username = username,
                  tok_TokenID = uuid_New e, tok_Token = auth_Token response\<rparr>, w1))"

text \<open>
  The method \<open>b.createToken\<close>. Its \<open>token == nil\<close> branch cannot be taken: the function
  above returns a non-nil token whenever its error is nil.
\<close>

definition backend_createToken ::
  "env \<Rightarrow> world \<Rightarrow> myRoleEntry \<Rightarrow> myToken outcome \<times> world" where
  "backend_createToken e w roleEntry =
     (case getClient e w of
        (Fault m, w1) \<Rightarrow> (Fault m, w1)
      | (Panic m, w1) \<Rightarrow> (Panic m, w1)
      | (Ok cl, w1) \<Rightarrow>
          (case createToken e cl (role_Username roleEntry) w1 of
             (Fault m, w2) \<Rightarrow> (Fault (''error creating HashiCups token: '' @ m), w2)
           | (Panic m, w2) \<Rightarrow> (Panic m, w2)
           | (Ok token, w2) \<Rightarrow> (Ok token, w2)))"

text \<open>
  \<open>b.Secret(myTokenType).Response(data, internal)\<close> of the host framework: the response
  carries \<open>data\<close>, and a secret with \<open>internal\<close> as its internal data and lease options
  still at their zero value, which the host reads as "use the mount's default".
\<close>

definition Secret_Response :: "(string \<rightharpoonup> val) \<Rightarrow> (string \<rightharpoonup> val) \<Rightarrow> secret" where
  "Secret_Response data internal = \<lparr>sec_TTL = 0, sec_MaxTTL = 0, sec_InternalData = internal\<rparr>"

definition createUserCreds ::
  "env \<Rightarrow> world \<Rightarrow> myRoleEntry \<Rightarrow> response option outcome \<times> world" where
  "createUserCreds e w role =
     (case backend_createToken e w role of
        (Fault m, w1) \<Rightarrow> (Fault m, w1)
      | (Panic m, w1) \<Rightarrow> (Panic m, w1)
      | (Ok token, w1) \<Rightarrow>
          (let data = [''token'' \<mapsto> VString (tok_Token token),
                       ''token_id'' \<mapsto> VString (tok_TokenID token),
                       ''user_id'' \<mapsto> VInt (tok_UserID token),
                       ''username'' \<mapsto> VString (tok_Username token)];
               internal = [''token'' \<mapsto> VString (tok_Token token),
                           ''role'' \<mapsto> VString (role_Username role)];
               sec0 = Secret_Response data internal;
               sec1 = (if role_TTL role > 0 then sec0\<lparr>sec_TTL := role_TTL role\<rparr> else sec0);
               sec2 = (if role_MaxTTL role > 0 then sec1\<lparr>sec_MaxTTL := role_MaxTTL role\<rparr>
                       else sec1)
           in (Ok (Some (Response data (Some sec2))), w1)))"

text \<open>\<open>d.Get("name")\<close> yields the schema's zero value, the empty string, for an absent field.\<close>

definition pathCredentialsRead ::
  "env \<Rightarrow> world \<Rightarrow> fieldData \<Rightarrow> response option outcome \<times> world" where
  "pathCredentialsRead e w d =
     (let roleName = (case fd_name d of None \<Rightarrow> [] | Some n \<Rightarrow> n)
      in case getRole e w roleName of
           Fault m \<Rightarrow> (Fault (''error retrieving role: '' @ m), w)
         | Panic m \<Rightarrow> (Panic m, w)
         | Ok None \<Rightarrow> (Fault ''error retrieving role: role is nil'', w)
         | Ok (Some roleEntry) \<Rightarrow> createUserCreds e w roleEntry)"

section \<open>Secret lifecycle: revoke\<close>

text \<open>
  \<open>deleteToken\<close> writes the token into the client it is given and signs out. Both
  branches after \<open>SignOut\<close> return nil. The client is handed over by pointer: the
  updated client is returned so that the caller's cache, which holds the same object,
  sees the write.
\<close>

definition deleteToken ::
  "env \<Rightarrow> myClient \<Rightarrow> string \<Rightarrow> world \<Rightarrow> string option \<times> myClient \<times> world" where
  "deleteToken e c token w =
     (let c1 = c\<lparr>client_Token := token\<rparr>;
          w1 = w\<lparr>calls := calls w @ [SignOut_call token]\<rparr>
      in case hashicups_SignOut e c1 of
           Some err \<Rightarrow> (None, c1, w1)
         | None \<Rightarrow> (None, c1, w1))"

definition tokenRevoke ::
  "env \<Rightarrow> world \<Rightarrow> secret \<Rightarrow> response option outcome \<times> world" where
  "tokenRevoke e w sec =
     (case getClient e w of
        (Fault m, w1) \<Rightarrow> (Fault (''error getting client: '' @ m), w1)
      | (Panic m, w1) \<Rightarrow> (Panic m, w1)
      | (Ok cl, w1) \<Rightarrow>
          (case (case sec_InternalData sec ''token'' of
                   None \<Rightarrow> Some []
                 | Some tokenRaw \<Rightarrow> (case tokenRaw of VString t \<Rightarrow> Some t | _ \<Rightarrow> None)) of
             None \<Rightarrow> (Fault ''invalid value for token in secret internal data'', w1)
           | Some token \<Rightarrow>
               (case deleteToken e cl token w1 of
                  (Some m, cl', w2) \<Rightarrow>
                    (Fault (''error revoking user token: '' @ m), w2\<lparr>client := Some cl'\<rparr>)
                | (None, cl', w2) \<Rightarrow> (Ok None, w2\<lparr>client := Some cl'\<rparr>))))"

section \<open>A stub setting\<close>

text \<open>
  A healthy host and upstream: storage never faults, client construction and sign-in
  succeed, sign-out succeeds.
\<close>

definition stub_client :: "string \<Rightarrow> string \<Rightarrow> string \<Rightarrow> myClient" where
  "stub_client url user pw =
     \<lparr>client_HostURL = url, client_Username = user, client_Password = pw,
      client_Token = ''jwt0''\<rparr>"

definition stub_env :: env where
  "stub_env = \<lparr>Get_err = (\<lambda>k. None), Put_err = (\<lambda>k. None), Delete_err = (\<lambda>k. None),
     hashicups_NewClient = (\<lambda>url user pw. Inr (stub_client url user pw)),
     hashicups_SignIn = (\<lambda>c. Inr \<lparr>auth_UserID = 7, auth_Token = ''jwt1''\<rparr>),
     hashicups_SignOut = (\<lambda>c. None),
     uuid_New = ''id-1''\<rparr>"

text \<open>The same, with an upstream whose sign-out call always fails.\<close>

definition failing_signout_env :: env where
  "failing_signout_env = stub_env\<lparr>hashicups_SignOut := (\<lambda>c. Some ''503'')\<rparr>"

definition empty_world :: world where
  "empty_world = \<lparr>storage = Map.empty, client = None, calls = []\<rparr>"

definition alice_config :: myConfig where
  "alice_config = \<lparr>cfg_Username = ''alice'', cfg_Password = ''pw'',
     cfg_URL = ''https://api.example''\<rparr>"

definition r1_role :: myRoleEntry where
  "r1_role = new_myRoleEntry\<lparr>role_Username := ''alice'', role_TTL := seconds 60,
     role_MaxTTL := seconds 120\<rparr>"

text \<open>Configured, with role \<open>r1\<close> bound to upstream identity \<open>alice\<close>, no client cached yet.\<close>

definition r1_world :: world where
  "r1_world = \<lparr>storage = [''config'' \<mapsto> ConfigJSON alice_config,
                            ''role/r1'' \<mapsto> RoleJSON r1_role],
     client = None, calls = []\<rparr>"

definition no_fields :: fieldData where
  "no_fields = \<lparr>fd_name = None, fd_username = None, fd_password = None, fd_url = None,
     fd_ttl = None, fd_max_ttl = None\<rparr>"

definition lease_of :: "(string \<rightharpoonup> val) \<Rightarrow> secret" where
  "lease_of internal = \<lparr>sec_TTL = 30, sec_MaxTTL = 90, sec_InternalData = internal\<rparr>"

section \<open>Notions used to state the properties\<close>

text \<open>
  What a successful renewal leaves in the lease: each of TTL and MaxTTL is taken from the
  role when the role's value is positive, and kept otherwise.
\<close>

definition renewed :: "myRoleEntry \<Rightarrow> secret \<Rightarrow> secret" where
  "renewed r sec =
     sec\<lparr>sec_TTL := (if role_TTL r > 0 then role_TTL r else sec_TTL sec),
         sec_MaxTTL := (if role_MaxTTL r > 0 then role_MaxTTL r else sec_MaxTTL sec)\<rparr>"

text \<open>The upstream sign-out calls in a trace.\<close>

fun is_SignOut :: "call \<Rightarrow> bool" where
  "is_SignOut (SignOut_call t) = True"
| "is_SignOut (NewClient_call u n p) = False"
| "is_SignOut SignIn_call = False"

text \<open>
  The record \<open>pathRolesWrite\<close> has built when it reaches its TTL check: the stored record
  (or a zero record), with the username, \<open>ttl\<close> and \<open>max_ttl\<close> steps of the source applied.
  On a create operation an unsupplied \<open>ttl\<close> or \<open>max_ttl\<close> is set from \<open>d.Get\<close>, whose
  default is zero.
\<close>

definition upsert_candidate :: "myRoleEntry option \<Rightarrow> operation \<Rightarrow> fieldData \<Rightarrow> myRoleEntry" where
  "upsert_candidate found op d =
     (let base = (case found of None \<Rightarrow> new_myRoleEntry | Some r \<Rightarrow> r)
      in base\<lparr>role_Username := (case fd_username d of Some u \<Rightarrow> u | None \<Rightarrow> role_Username base),
              role_TTL := (case fd_ttl d of Some t \<Rightarrow> seconds t
                           | None \<Rightarrow> if op = CreateOperation then 0 else role_TTL base),
              role_MaxTTL := (case fd_max_ttl d of Some t \<Rightarrow> seconds t
                              | None \<Rightarrow> if op = CreateOperation then 0 else role_MaxTTL base)\<rparr>)"



text \<open>Further inputs of the stub setting.\<close>

definition alice_fields :: fieldData where
  "alice_fields = no_fields\<lparr>fd_username := Some ''alice'', fd_password := Some ''pw'',
     fd_url := Some ''https://api.example''\<rparr>"

definition configured_world :: world where
  "configured_world = \<lparr>storage = [''config'' \<mapsto> ConfigJSON alice_config],
     client = None, calls = []\<rparr>"

definition r1_issued_lease :: secret where
  "r1_issued_lease = \<lparr>sec_TTL = 60000000000, sec_MaxTTL = 120000000000,
     sec_InternalData = [''token'' \<mapsto> VString ''jwt1'', ''role'' \<mapsto> VString ''alice'']\<rparr>"

definition r1_issued_world :: world where
  "r1_issued_world = r1_world\<lparr>
     client := Some (stub_client ''https://api.example'' ''alice'' ''pw''),
     calls := [NewClient_call ''https://api.example'' ''alice'' ''pw'', SignIn_call]\<rparr>"

section \<open>Facts about the role store\<close>

lemma getRole_absent:
  "storage w (''role/'' @ n) = None \<Longrightarrow> n \<noteq> [] \<Longrightarrow> Get_err e (''role/'' @ n) = None
   \<Longrightarrow> getRole e w n = Ok None"
  by (simp add: getRole_def storage_Get_def)

lemma getRole_absent_cases:
  "storage w (''role/'' @ n) = None
   \<Longrightarrow> getRole e w n = Ok None \<or> (\<exists>m. getRole e w n = Fault m)"
  by (simp add: getRole_def storage_Get_def split: option.splits)


lemma getRole_no_Panic: "getRole e w n \<noteq> Panic m"
  by (simp add: getRole_def storage_Get_def split: option.splits sum.splits)


section \<open>Renewal\<close>

text \<open>
  C10. When the lease's internal data has a \<open>role\<close> key whose value is not a string,
  \<open>tokenRenew\<close> panics at the unchecked type assertion and returns no error value; the
  error "secret is missing role internal data" is returned exactly when the key is
  absent.
\<close>

theorem tokenRenew_untyped_role_panics:
  "(\<forall>v. sec_InternalData sec ''role'' = Some v \<and> (\<forall>s. v \<noteq> VString s) \<longrightarrow>
        tokenRenew e w sec
          = (Panic ''interface conversion: interface {} is not string'', sec, w))
   \<and> (fst (tokenRenew e w sec) = Fault ''secret is missing role internal data''
        \<longleftrightarrow> sec_InternalData sec ''role'' = None)"
proof (intro conjI allI impI)
  fix v assume "sec_InternalData sec ''role'' = Some v \<and> (\<forall>s. v \<noteq> VString s)"
  then show "tokenRenew e w sec
               = (Panic ''interface conversion: interface {} is not string'', sec, w)"
    by (cases v) (simp_all add: tokenRenew_def)
next
  show "fst (tokenRenew e w sec) = Fault ''secret is missing role internal data''
        \<longleftrightarrow> sec_InternalData sec ''role'' = None"
    by (auto simp add: tokenRenew_def Let_def split: option.splits val.splits outcome.splits)
qed

theorem tokenRenew_untyped_role_panics_witness:
  "sec_InternalData (lease_of [''role'' \<mapsto> VInt 5]) ''role'' = Some (VInt 5)
   \<and> (\<forall>s. VInt 5 \<noteq> VString s)
   \<and> tokenRenew stub_env r1_world (lease_of [''role'' \<mapsto> VInt 5])
      = (Panic ''interface conversion: interface {} is not string'',
         lease_of [''role'' \<mapsto> VInt 5], r1_world)
   \<and> fst (tokenRenew stub_env r1_world (lease_of Map.empty))
      = Fault ''secret is missing role internal data''"
  using tokenRenew_untyped_role_panics [of "lease_of [''role'' \<mapsto> VInt 5]" stub_env r1_world]
        tokenRenew_untyped_role_panics [of "lease_of Map.empty" stub_env r1_world]
  by (simp add: lease_of_def)

lemma tokenRenew_world: "snd (snd (tokenRenew e w sec)) = w"
  by (simp add: tokenRenew_def Let_def split: option.splits val.splits outcome.splits)

lemma tokenRenew_role_gone:
  assumes "sec_InternalData sec ''role'' = Some (VString n)"
    and "storage w (''role/'' @ n) = None"
  shows "\<exists>m. tokenRenew e w sec = (Fault m, sec, w)"
  using assms getRole_absent_cases [of w n e]
  by (auto simp add: tokenRenew_def)

lemma tokenRenew_role_gone_msg:
  assumes "sec_InternalData sec ''role'' = Some (VString n)"
    and "storage w (''role/'' @ n) = None"
    and "n \<noteq> []" and "Get_err e (''role/'' @ n) = None"
  shows "tokenRenew e w sec = (Fault ''error retrieving role: role is nil'', sec, w)"
  using assms getRole_absent [of w n e]
  by (simp add: tokenRenew_def)

lemma tokenRenew_role_found:
  assumes "sec_InternalData sec ''role'' = Some (VString n)"
    and "getRole e w n = Ok (Some r)"
  shows "tokenRenew e w sec
           = (Ok (Some (Response Map.empty (Some (renewed r sec)))), renewed r sec, w)"
  using assms by (simp add: tokenRenew_def renewed_def Let_def)

lemma pathRolesDelete_Ok:
  "fd_name d = Some n \<Longrightarrow> pathRolesDelete e w d = (Ok None, w')
   \<Longrightarrow> storage w' (''role/'' @ n) = None \<and> client w' = client w \<and> calls w' = calls w"
  by (auto simp add: pathRolesDelete_def storage_Delete_def split: option.splits)

text \<open>
  C6. When the role named in the lease's internal data is no longer stored, \<open>tokenRenew\<close>
  fails (with "role is nil" when the name is non-empty and the storage read itself
  succeeds) and the lease passed in keeps its TTL and MaxTTL; this is the situation after
  a successful \<open>pathRolesDelete\<close> of that role. When the role is found, the lease's TTL
  and MaxTTL become the role's values, each only where the role's value is positive. In
  every case the instance state, and with it the trace of upstream calls and the cached
  client, is what it was before.
\<close>

theorem tokenRenew_follows_role_store:
  "(sec_InternalData sec ''role'' = Some (VString n) \<and> storage w (''role/'' @ n) = None \<longrightarrow>
      (\<exists>m. tokenRenew e w sec = (Fault m, sec, w))
      \<and> (n \<noteq> [] \<and> Get_err e (''role/'' @ n) = None \<longrightarrow>
           tokenRenew e w sec = (Fault ''error retrieving role: role is nil'', sec, w)))
   \<and> (sec_InternalData sec ''role'' = Some (VString n) \<and> getRole e w n = Ok (Some r) \<longrightarrow>
        tokenRenew e w sec
          = (Ok (Some (Response Map.empty (Some (renewed r sec)))), renewed r sec, w)
        \<and> sec_TTL (renewed r sec) = (if role_TTL r > 0 then role_TTL r else sec_TTL sec)
        \<and> sec_MaxTTL (renewed r sec)
            = (if role_MaxTTL r > 0 then role_MaxTTL r else sec_MaxTTL sec)
        \<and> sec_InternalData (renewed r sec) = sec_InternalData sec)
   \<and> (fd_name d = Some n \<and> pathRolesDelete ea wa d = (Ok None, wb)
        \<and> sec_InternalData sec ''role'' = Some (VString n) \<longrightarrow>
          (\<exists>m. tokenRenew e wb sec = (Fault m, sec, wb)))
   \<and> calls (snd (snd (tokenRenew e w sec))) = calls w
   \<and> client (snd (snd (tokenRenew e w sec))) = client w"
  using tokenRenew_role_gone [of sec n w e] tokenRenew_role_gone_msg [of sec n w e]
        tokenRenew_role_found [of sec n e w r] tokenRenew_world [of e w sec]
        pathRolesDelete_Ok [of d n ea wa wb] tokenRenew_role_gone [of sec n wb e]
  by (simp add: renewed_def)

lemma stub_durations:
  "seconds 60 = 60000000000" "seconds 120 = 120000000000" "seconds 0 = 0"
  by (simp_all add: seconds_def wrap64_def Second_def)

theorem tokenRenew_follows_role_store_witness:
  "sec_InternalData (lease_of [''role'' \<mapsto> VString ''gone'']) ''role'' = Some (VString ''gone'')
   \<and> storage r1_world (''role/'' @ ''gone'') = None
   \<and> ''gone'' \<noteq> [] \<and> Get_err stub_env (''role/'' @ ''gone'') = None
   \<and> tokenRenew stub_env r1_world (lease_of [''role'' \<mapsto> VString ''gone''])
       = (Fault ''error retrieving role: role is nil'',
          lease_of [''role'' \<mapsto> VString ''gone''], r1_world)
   \<and> sec_InternalData (lease_of [''role'' \<mapsto> VString ''r1'']) ''role'' = Some (VString ''r1'')
   \<and> getRole stub_env r1_world ''r1'' = Ok (Some r1_role)
   \<and> fst (snd (tokenRenew stub_env r1_world (lease_of [''role'' \<mapsto> VString ''r1''])))
       = \<lparr>sec_TTL = 60000000000, sec_MaxTTL = 120000000000,
          sec_InternalData = [''role'' \<mapsto> VString ''r1'']\<rparr>
   \<and> fd_name (no_fields\<lparr>fd_name := Some ''r1''\<rparr>) = Some ''r1''
   \<and> fst (pathRolesDelete stub_env r1_world (no_fields\<lparr>fd_name := Some ''r1''\<rparr>)) = Ok None
   \<and> tokenRenew stub_env
        (snd (pathRolesDelete stub_env r1_world (no_fields\<lparr>fd_name := Some ''r1''\<rparr>)))
        (lease_of [''role'' \<mapsto> VString ''r1''])
       = (Fault ''error retrieving role: role is nil'', lease_of [''role'' \<mapsto> VString ''r1''],
          snd (pathRolesDelete stub_env r1_world (no_fields\<lparr>fd_name := Some ''r1''\<rparr>)))"
proof -
  have del: "pathRolesDelete stub_env r1_world (no_fields\<lparr>fd_name := Some ''r1''\<rparr>)
               = (Ok None, r1_world\<lparr>storage := (storage r1_world)(''role/r1'' := None)\<rparr>)"
    by (simp add: pathRolesDelete_def storage_Delete_def no_fields_def stub_env_def)
  have after: "tokenRenew stub_env (r1_world\<lparr>storage := (storage r1_world)(''role/r1'' := None)\<rparr>)
                 (lease_of [''role'' \<mapsto> VString ''r1''])
               = (Fault ''error retrieving role: role is nil'',
                  lease_of [''role'' \<mapsto> VString ''r1''],
                  r1_world\<lparr>storage := (storage r1_world)(''role/r1'' := None)\<rparr>)"
    by (simp add: tokenRenew_def getRole_def storage_Get_def lease_of_def stub_env_def)
  show ?thesis
    using tokenRenew_follows_role_store
            [of "lease_of [''role'' \<mapsto> VString ''gone'']" "''gone''" r1_world stub_env r1_role
                "no_fields\<lparr>fd_name := Some ''r1''\<rparr>" stub_env r1_world
                "r1_world\<lparr>storage := (storage r1_world)(''role/r1'' := None)\<rparr>"]
          tokenRenew_follows_role_store
            [of "lease_of [''role'' \<mapsto> VString ''r1'']" "''r1''" r1_world stub_env r1_role
                "no_fields\<lparr>fd_name := Some ''r1''\<rparr>" stub_env r1_world
                "r1_world\<lparr>storage := (storage r1_world)(''role/r1'' := None)\<rparr>"]
          del after
    by (simp add: lease_of_def r1_world_def stub_env_def getRole_def storage_Get_def
        renewed_def r1_role_def new_myRoleEntry_def stub_durations no_fields_def)
qed

section \<open>Issuance against a missing role\<close>

lemma pathCredentialsRead_absent:
  assumes "storage w (''role/'' @ (case fd_name d of None \<Rightarrow> [] | Some n \<Rightarrow> n)) = None"
  shows "\<exists>m. pathCredentialsRead e w d = (Fault m, w)"
  using getRole_absent_cases [OF assms, of e]
  by (auto simp add: pathCredentialsRead_def Let_def)

text \<open>
  C7. When the role named in an issuance request is not stored, \<open>pathCredentialsRead\<close>
  fails with an error ("role is nil" when the name is non-empty and the storage read
  itself succeeds) and returns the instance state as it was: no client was obtained or
  cached and the trace of upstream calls did not grow.
\<close>

theorem pathCredentialsRead_missing_role:
  "fd_name d = Some n \<and> storage w (''role/'' @ n) = None \<longrightarrow>
      (\<exists>m. pathCredentialsRead e w d = (Fault m, w))
      \<and> (n \<noteq> [] \<and> Get_err e (''role/'' @ n) = None \<longrightarrow>
           pathCredentialsRead e w d = (Fault ''error retrieving role: role is nil'', w))"
proof (intro impI conjI)
  assume a: "fd_name d = Some n \<and> storage w (''role/'' @ n) = None"
  then show "\<exists>m. pathCredentialsRead e w d = (Fault m, w)"
    using pathCredentialsRead_absent [of w d e] by simp
  assume "n \<noteq> [] \<and> Get_err e (''role/'' @ n) = None"
  with a show "pathCredentialsRead e w d = (Fault ''error retrieving role: role is nil'', w)"
    using getRole_absent [of w n e] by (simp add: pathCredentialsRead_def)
qed

theorem pathCredentialsRead_missing_role_witness:
  "fd_name (no_fields\<lparr>fd_name := Some ''missing-role''\<rparr>) = Some ''missing-role''
   \<and> storage r1_world (''role/'' @ ''missing-role'') = None
   \<and> ''missing-role'' \<noteq> [] \<and> Get_err stub_env (''role/'' @ ''missing-role'') = None
   \<and> pathCredentialsRead stub_env r1_world (no_fields\<lparr>fd_name := Some ''missing-role''\<rparr>)
        = (Fault ''error retrieving role: role is nil'', r1_world)
   \<and> client r1_world = None \<and> calls r1_world = []"
  using pathCredentialsRead_missing_role
          [of "no_fields\<lparr>fd_name := Some ''missing-role''\<rparr>" "''missing-role''" r1_world stub_env]
  by (simp add: no_fields_def r1_world_def stub_env_def)

section \<open>Revocation\<close>

lemma getClient_cached: "client w = Some c \<Longrightarrow> getClient e w = (Ok c, w)"
  by (simp add: getClient_def)

lemma getClient_no_SignOut:
  "filter is_SignOut (calls (snd (getClient e w))) = filter is_SignOut (calls w)"
  by (auto simp add: getClient_def newClient_def Let_def
      split: option.splits if_splits sum.splits outcome.splits)

lemma deleteToken_nil: "fst (deleteToken e c token w) = None"
  by (simp add: deleteToken_def Let_def split: option.splits)

lemma tokenRevoke_string:
  assumes "getClient e w = (Ok cl, w1)"
    and "sec_InternalData sec ''token'' = Some (VString t)"
  shows "tokenRevoke e w sec
           = (Ok None, w1\<lparr>calls := calls w1 @ [SignOut_call t],
                          client := Some (cl\<lparr>client_Token := t\<rparr>)\<rparr>)"
  using assms by (simp add: tokenRevoke_def deleteToken_def Let_def split: option.splits)

lemma tokenRevoke_absent:
  assumes "getClient e w = (Ok cl, w1)" and "sec_InternalData sec ''token'' = None"
  shows "tokenRevoke e w sec
           = (Ok None, w1\<lparr>calls := calls w1 @ [SignOut_call []],
                          client := Some (cl\<lparr>client_Token := []\<rparr>)\<rparr>)"
  using assms by (simp add: tokenRevoke_def deleteToken_def Let_def split: option.splits)

lemma tokenRevoke_not_string:
  assumes "getClient e w = (Ok cl, w1)" and "sec_InternalData sec ''token'' = Some v"
    and "\<forall>s. v \<noteq> VString s"
  shows "tokenRevoke e w sec
           = (Fault ''invalid value for token in secret internal data'', w1)"
  using assms by (cases v) (simp_all add: tokenRevoke_def)

lemma stub_getClient:
  "getClient stub_env r1_world
     = (Ok (stub_client ''https://api.example'' ''alice'' ''pw''),
        r1_world\<lparr>calls := [NewClient_call ''https://api.example'' ''alice'' ''pw''],
                 client := Some (stub_client ''https://api.example'' ''alice'' ''pw'')\<rparr>)"
  by (simp add: getClient_def getConfig_def storage_Get_def configStoragePath_def
      newClient_def stub_env_def r1_world_def alice_config_def Let_def)

lemma failing_signout_getClient:
  "getClient failing_signout_env r1_world
     = (Ok (stub_client ''https://api.example'' ''alice'' ''pw''),
        r1_world\<lparr>calls := [NewClient_call ''https://api.example'' ''alice'' ''pw''],
                 client := Some (stub_client ''https://api.example'' ''alice'' ''pw'')\<rparr>)"
  by (simp add: getClient_def getConfig_def storage_Get_def configStoragePath_def
      newClient_def failing_signout_env_def stub_env_def r1_world_def alice_config_def Let_def)

text \<open>
  C3. \<open>deleteToken\<close> returns nil whatever the upstream sign-out call answers. Hence, once
  a client is obtained and the lease's internal data holds a string token, \<open>tokenRevoke\<close>
  makes the sign-out call with that token and reports success, also when that call
  returns an error.
\<close>

theorem tokenRevoke_swallows_signout_failure:
  "fst (deleteToken e c token w) = None
   \<and> (getClient e w = (Ok cl, w1) \<and> sec_InternalData sec ''token'' = Some (VString t)
        \<and> hashicups_SignOut e (cl\<lparr>client_Token := t\<rparr>) = Some err \<longrightarrow>
          fst (tokenRevoke e w sec) = Ok None
          \<and> calls (snd (tokenRevoke e w sec)) = calls w1 @ [SignOut_call t])"
  using deleteToken_nil [of e c token w] tokenRevoke_string [of e w cl w1 sec t]
  by simp

theorem tokenRevoke_swallows_signout_failure_witness:
  "getClient failing_signout_env r1_world
     = (Ok (stub_client ''https://api.example'' ''alice'' ''pw''),
        r1_world\<lparr>calls := [NewClient_call ''https://api.example'' ''alice'' ''pw''],
                 client := Some (stub_client ''https://api.example'' ''alice'' ''pw'')\<rparr>)
   \<and> sec_InternalData (lease_of [''token'' \<mapsto> VString ''jwt1'']) ''token''
       = Some (VString ''jwt1'')
   \<and> hashicups_SignOut failing_signout_env
        ((stub_client ''https://api.example'' ''alice'' ''pw'')\<lparr>client_Token := ''jwt1''\<rparr>)
       = Some ''503''
   \<and> fst (tokenRevoke failing_signout_env r1_world (lease_of [''token'' \<mapsto> VString ''jwt1'']))
       = Ok None
   \<and> calls (snd (tokenRevoke failing_signout_env r1_world
                    (lease_of [''token'' \<mapsto> VString ''jwt1''])))
       = [NewClient_call ''https://api.example'' ''alice'' ''pw'', SignOut_call ''jwt1'']"
  using tokenRevoke_swallows_signout_failure
          [of failing_signout_env "stub_client [] [] []" "[]" r1_world
              "stub_client ''https://api.example'' ''alice'' ''pw''"
              "r1_world\<lparr>calls := [NewClient_call ''https://api.example'' ''alice'' ''pw''],
                 client := Some (stub_client ''https://api.example'' ''alice'' ''pw'')\<rparr>"
              "lease_of [''token'' \<mapsto> VString ''jwt1'']" "''jwt1''" "''503''"]
        failing_signout_getClient
  by (simp add: lease_of_def failing_signout_env_def stub_env_def)

text \<open>
  C1, as the code has it. Once a client is obtained: a \<open>token\<close> key holding a value that
  is not a string makes \<open>tokenRevoke\<close> fail with "invalid value for token in secret
  internal data", and no sign-out call is made; an absent \<open>token\<close> key does not fail:
  the empty string is used as the token, the sign-out call is made with it and success
  is reported.
\<close>

theorem tokenRevoke_token_key:
  "getClient e w = (Ok cl, w1) \<longrightarrow>
     (\<forall>v. sec_InternalData sec ''token'' = Some v \<and> (\<forall>s. v \<noteq> VString s) \<longrightarrow>
        tokenRevoke e w sec
          = (Fault ''invalid value for token in secret internal data'', w1)
        \<and> filter is_SignOut (calls w1) = filter is_SignOut (calls w))
     \<and> (sec_InternalData sec ''token'' = None \<longrightarrow>
          tokenRevoke e w sec
            = (Ok None, w1\<lparr>calls := calls w1 @ [SignOut_call []],
                           client := Some (cl\<lparr>client_Token := []\<rparr>)\<rparr>))"
proof (intro impI conjI allI)
  fix v
  assume g: "getClient e w = (Ok cl, w1)"
    and v: "sec_InternalData sec ''token'' = Some v \<and> (\<forall>s. v \<noteq> VString s)"
  from g v show "tokenRevoke e w sec
                   = (Fault ''invalid value for token in secret internal data'', w1)"
    using tokenRevoke_not_string [of e w cl w1 sec v] by simp
  from g show "filter is_SignOut (calls w1) = filter is_SignOut (calls w)"
    using getClient_no_SignOut [of e w] by simp
next
  assume "getClient e w = (Ok cl, w1)" and "sec_InternalData sec ''token'' = None"
  then show "tokenRevoke e w sec
               = (Ok None, w1\<lparr>calls := calls w1 @ [SignOut_call []],
                              client := Some (cl\<lparr>client_Token := []\<rparr>)\<rparr>)"
    by (rule tokenRevoke_absent)
qed

theorem tokenRevoke_token_key_witness:
  "getClient stub_env r1_world
     = (Ok (stub_client ''https://api.example'' ''alice'' ''pw''),
        r1_world\<lparr>calls := [NewClient_call ''https://api.example'' ''alice'' ''pw''],
                 client := Some (stub_client ''https://api.example'' ''alice'' ''pw'')\<rparr>)
   \<and> sec_InternalData (lease_of [''token'' \<mapsto> VInt 3]) ''token'' = Some (VInt 3)
   \<and> (\<forall>s. VInt 3 \<noteq> VString s)
   \<and> fst (tokenRevoke stub_env r1_world (lease_of [''token'' \<mapsto> VInt 3]))
       = Fault ''invalid value for token in secret internal data''
   \<and> sec_InternalData (lease_of [''role'' \<mapsto> VString ''r1'']) ''token'' = None
   \<and> fst (tokenRevoke stub_env r1_world (lease_of [''role'' \<mapsto> VString ''r1''])) = Ok None"
  using tokenRevoke_token_key
          [of stub_env r1_world "stub_client ''https://api.example'' ''alice'' ''pw''"
              "r1_world\<lparr>calls := [NewClient_call ''https://api.example'' ''alice'' ''pw''],
                 client := Some (stub_client ''https://api.example'' ''alice'' ''pw'')\<rparr>"
              "lease_of [''token'' \<mapsto> VInt 3]"]
        tokenRevoke_token_key
          [of stub_env r1_world "stub_client ''https://api.example'' ''alice'' ''pw''"
              "r1_world\<lparr>calls := [NewClient_call ''https://api.example'' ''alice'' ''pw''],
                 client := Some (stub_client ''https://api.example'' ''alice'' ''pw'')\<rparr>"
              "lease_of [''role'' \<mapsto> VString ''r1'']"]
        stub_getClient
  by (simp add: lease_of_def)

text \<open>
  The claim as the specification words it fails: with a lease whose internal data has no
  \<open>token\<close> key, \<open>tokenRevoke\<close> reports success, after an upstream sign-out call with the
  empty token.
\<close>

theorem tokenRevoke_missing_token_counterexample:
  "sec_InternalData (lease_of [''role'' \<mapsto> VString ''r1'']) ''token'' = None
   \<and> fst (tokenRevoke stub_env r1_world (lease_of [''role'' \<mapsto> VString ''r1''])) = Ok None
   \<and> calls (snd (tokenRevoke stub_env r1_world (lease_of [''role'' \<mapsto> VString ''r1''])))
       = [NewClient_call ''https://api.example'' ''alice'' ''pw'', SignOut_call []]"
  using tokenRevoke_absent [OF stub_getClient, of "lease_of [''role'' \<mapsto> VString ''r1'']"]
  by (simp add: lease_of_def)

section \<open>The client cache\<close>

lemma getClient_constructs:
  assumes "client w = None" and "getConfig e w = Ok (Some cfg)"
    and "cfg_Username cfg \<noteq> []" and "cfg_Password cfg \<noteq> []" and "cfg_URL cfg \<noteq> []"
    and "hashicups_NewClient e (cfg_URL cfg) (cfg_Username cfg) (cfg_Password cfg) = Inr cl"
  shows "getClient e w
           = (Ok cl, w\<lparr>calls := calls w @ [NewClient_call (cfg_URL cfg) (cfg_Username cfg)
                                              (cfg_Password cfg)],
                        client := Some cl\<rparr>)"
  using assms by (simp add: getClient_def newClient_def Let_def)

lemma getClient_config_absent:
  assumes "client w = None" and "getConfig e w = Ok None"
  shows "getClient e w = (Fault ''client username was not defined'', w)"
  using assms by (simp add: getClient_def newClient_def Let_def new_myConfig_def)

lemma getClient_field_empty:
  assumes "client w = None" and "getConfig e w = Ok (Some cfg)"
    and "cfg_Username cfg = [] \<or> cfg_Password cfg = [] \<or> cfg_URL cfg = []"
  shows "getClient e w
           = (Fault (if cfg_Username cfg = [] then ''client username was not defined''
                     else if cfg_Password cfg = [] then ''client password was not defined''
                     else ''client URL was not defined''), w)"
  using assms by (auto simp add: getClient_def newClient_def Let_def)

lemma getConfig_absent:
  "storage w ''config'' = None \<Longrightarrow> getConfig e w = Ok None \<or> (\<exists>m. getConfig e w = Fault m)"
  by (simp add: getConfig_def storage_Get_def configStoragePath_def split: option.splits)

lemma getConfig_absent_ok:
  "storage w ''config'' = None \<Longrightarrow> Get_err e ''config'' = None \<Longrightarrow> getConfig e w = Ok None"
  by (simp add: getConfig_def storage_Get_def configStoragePath_def split: option.splits)

lemma pathConfigDelete_Ok:
  "pathConfigDelete e w = (Ok None, w')
   \<Longrightarrow> storage w' ''config'' = None \<and> client w' = None \<and> calls w' = calls w"
  by (auto simp add: pathConfigDelete_def storage_Delete_def reset_def configStoragePath_def
      split: option.splits)

lemma getClient_unconfigured:
  assumes "client w = None" and "storage w ''config'' = None"
  shows "\<exists>m. getClient e w = (Fault m, w)"
  using assms getConfig_absent [of w e] getClient_config_absent [of w e]
  by (auto simp add: getClient_def)

text \<open>
  C8. \<open>getClient\<close> returns a cached client as it is, leaving the state alone. With no
  client cached it reads the configuration: when the record is stored with all three
  fields non-empty and the client library accepts them, the new client is returned and
  cached; when no record is stored, or one of username, password, URL is empty, it
  fails with the corresponding "... was not defined" error of \<open>newClient\<close>, contacts
  nothing and caches nothing. After a successful configuration write followed by a
  successful configuration delete, \<open>getClient\<close> fails: with "client username was not
  defined" (the error an absent configuration produces) when the storage read succeeds,
  and with the storage's own error otherwise.
\<close>

theorem getClient_contract:
  "(client w = Some c \<longrightarrow> getClient e w = (Ok c, w))
   \<and> (client w = None \<and> getConfig e w = Ok (Some cfg)
        \<and> cfg_Username cfg \<noteq> [] \<and> cfg_Password cfg \<noteq> [] \<and> cfg_URL cfg \<noteq> []
        \<and> hashicups_NewClient e (cfg_URL cfg) (cfg_Username cfg) (cfg_Password cfg) = Inr cl \<longrightarrow>
          getClient e w
            = (Ok cl, w\<lparr>calls := calls w @ [NewClient_call (cfg_URL cfg) (cfg_Username cfg)
                                               (cfg_Password cfg)],
                         client := Some cl\<rparr>))
   \<and> (client w = None \<and> getConfig e w = Ok None \<longrightarrow>
          getClient e w = (Fault ''client username was not defined'', w))
   \<and> (client w = None \<and> getConfig e w = Ok (Some cfg)
        \<and> (cfg_Username cfg = [] \<or> cfg_Password cfg = [] \<or> cfg_URL cfg = []) \<longrightarrow>
          getClient e w
            = (Fault (if cfg_Username cfg = [] then ''client username was not defined''
                      else if cfg_Password cfg = [] then ''client password was not defined''
                      else ''client URL was not defined''), w))
   \<and> (pathConfigWrite ea wa op d = (Ok None, wb) \<and> pathConfigDelete eb wb = (Ok None, wc) \<longrightarrow>
          (\<exists>m. getClient e wc = (Fault m, wc))
          \<and> (Get_err e ''config'' = None \<longrightarrow>
               getClient e wc = (Fault ''client username was not defined'', wc)))"
proof (intro conjI impI)
  assume "pathConfigWrite ea wa op d = (Ok None, wb) \<and> pathConfigDelete eb wb = (Ok None, wc)"
  then have gone: "storage wc ''config'' = None" "client wc = None"
    using pathConfigDelete_Ok [of eb wb wc] by simp_all
  then show "\<exists>m. getClient e wc = (Fault m, wc)"
    by (simp add: getClient_unconfigured)
  assume "Get_err e ''config'' = None"
  with gone show "getClient e wc = (Fault ''client username was not defined'', wc)"
    by (simp add: getConfig_absent_ok getClient_config_absent)
qed (simp_all add: getClient_cached getClient_constructs getClient_config_absent
       getClient_field_empty)

lemma stub_getConfig: "getConfig stub_env r1_world = Ok (Some alice_config)"
  by (simp add: getConfig_def storage_Get_def configStoragePath_def stub_env_def r1_world_def)

lemma stub_config_write:
  "pathConfigWrite stub_env empty_world CreateOperation alice_fields = (Ok None, configured_world)"
  by (simp add: pathConfigWrite_def getConfig_def storage_Get_def storage_Put_def
      configStoragePath_def stub_env_def empty_world_def alice_fields_def no_fields_def
      configured_world_def alice_config_def new_myConfig_def reset_def Let_def)

lemma stub_config_delete: "pathConfigDelete stub_env configured_world = (Ok None, empty_world)"
  by (simp add: pathConfigDelete_def storage_Delete_def configStoragePath_def stub_env_def
      configured_world_def empty_world_def reset_def)

theorem getClient_contract_witness:
  "client (r1_world\<lparr>client := Some (stub_client ''u'' ''n'' ''p'')\<rparr>)
     = Some (stub_client ''u'' ''n'' ''p'')
   \<and> getClient stub_env (r1_world\<lparr>client := Some (stub_client ''u'' ''n'' ''p'')\<rparr>)
       = (Ok (stub_client ''u'' ''n'' ''p''),
          r1_world\<lparr>client := Some (stub_client ''u'' ''n'' ''p'')\<rparr>)
   \<and> client r1_world = None \<and> getConfig stub_env r1_world = Ok (Some alice_config)
   \<and> cfg_Username alice_config \<noteq> [] \<and> cfg_Password alice_config \<noteq> []
   \<and> cfg_URL alice_config \<noteq> []
   \<and> hashicups_NewClient stub_env (cfg_URL alice_config) (cfg_Username alice_config)
        (cfg_Password alice_config) = Inr (stub_client ''https://api.example'' ''alice'' ''pw'')
   \<and> getClient stub_env r1_world
       = (Ok (stub_client ''https://api.example'' ''alice'' ''pw''),
          r1_world\<lparr>calls := [NewClient_call ''https://api.example'' ''alice'' ''pw''],
                   client := Some (stub_client ''https://api.example'' ''alice'' ''pw'')\<rparr>)
   \<and> pathConfigWrite stub_env empty_world CreateOperation alice_fields
       = (Ok None, configured_world)
   \<and> pathConfigDelete stub_env configured_world = (Ok None, empty_world)
   \<and> Get_err stub_env ''config'' = None
   \<and> client empty_world = None \<and> getConfig stub_env empty_world = Ok None
   \<and> getClient stub_env empty_world = (Fault ''client username was not defined'', empty_world)
   \<and> getConfig stub_env
        (empty_world\<lparr>storage := [''config'' \<mapsto> ConfigJSON (alice_config\<lparr>cfg_Password := []\<rparr>)]\<rparr>)
       = Ok (Some (alice_config\<lparr>cfg_Password := []\<rparr>))
   \<and> getClient stub_env
        (empty_world\<lparr>storage := [''config'' \<mapsto> ConfigJSON (alice_config\<lparr>cfg_Password := []\<rparr>)]\<rparr>)
       = (Fault ''client password was not defined'',
          empty_world\<lparr>storage := [''config'' \<mapsto> ConfigJSON (alice_config\<lparr>cfg_Password := []\<rparr>)]\<rparr>)"
  using getClient_contract
          [of "r1_world\<lparr>client := Some (stub_client ''u'' ''n'' ''p'')\<rparr>"
              "stub_client ''u'' ''n'' ''p''" stub_env alice_config
              "stub_client ''https://api.example'' ''alice'' ''pw''"
              stub_env empty_world CreateOperation alice_fields configured_world
              stub_env empty_world]
        getClient_contract
          [of r1_world "stub_client ''u'' ''n'' ''p''" stub_env alice_config
              "stub_client ''https://api.example'' ''alice'' ''pw''"
              stub_env empty_world CreateOperation alice_fields configured_world
              stub_env empty_world]
        getClient_contract
          [of "empty_world\<lparr>storage := [''config'' \<mapsto>
                 ConfigJSON (alice_config\<lparr>cfg_Password := []\<rparr>)]\<rparr>"
              "stub_client ''u'' ''n'' ''p''" stub_env "alice_config\<lparr>cfg_Password := []\<rparr>"
              "stub_client ''https://api.example'' ''alice'' ''pw''"
              stub_env empty_world CreateOperation alice_fields configured_world
              stub_env empty_world]
        stub_getConfig stub_config_write stub_config_delete
  by (simp add: getConfig_def storage_Get_def configStoragePath_def stub_env_def
      empty_world_def r1_world_def alice_config_def)

section \<open>Role upsert\<close>

lemma seconds_0: "seconds 0 = 0"
  by (simp add: seconds_def wrap64_def)

lemma pathRolesWrite_eq:
  assumes "fd_name d = Some name" and "getRole e w name = Ok found"
    and "\<not> (fd_username d = None \<and> op = CreateOperation)"
  shows "pathRolesWrite e w op d =
     (let r = upsert_candidate found op d
      in if role_MaxTTL r \<noteq> 0 \<and> role_TTL r > role_MaxTTL r
         then (Ok (Some (ErrorResponse ''ttl cannot be greater than max_ttl'')), w)
         else (case Put_err e (''role/'' @ name) of
                 Some m \<Rightarrow> (Fault m, w)
               | None \<Rightarrow>
                   (Ok None, w\<lparr>storage := (storage w)(''role/'' @ name \<mapsto> RoleJSON r)\<rparr>)))"
proof -
  have built:
    "(let roleEntry0 = (case found of None \<Rightarrow> new_myRoleEntry | Some r \<Rightarrow> r);
          roleEntry1 = (case fd_username d of
                          Some username \<Rightarrow> roleEntry0\<lparr>role_Username := username\<rparr>
                        | None \<Rightarrow> roleEntry0);
          roleEntry2 = (case fd_ttl d of
                          Some ttlRaw \<Rightarrow> roleEntry1\<lparr>role_TTL := seconds ttlRaw\<rparr>
                        | None \<Rightarrow> if op = CreateOperation
                                  then roleEntry1\<lparr>role_TTL := seconds 0\<rparr>
                                  else roleEntry1)
      in (case fd_max_ttl d of
            Some maxTTLRaw \<Rightarrow> roleEntry2\<lparr>role_MaxTTL := seconds maxTTLRaw\<rparr>
          | None \<Rightarrow> if op = CreateOperation
                    then roleEntry2\<lparr>role_MaxTTL := seconds 0\<rparr>
                    else roleEntry2)) = upsert_candidate found op d"
    by (simp add: upsert_candidate_def Let_def seconds_0 split: option.splits)
  show ?thesis
    using assms
    unfolding pathRolesWrite_def setRole_def storage_Put_def
    apply (simp only: option.case outcome.case Let_def if_False)
    apply (simp only: built [unfolded Let_def])
    apply (simp split: option.splits)
    done
qed

lemma pathRolesWrite_failure_keeps_world:
  "fst (pathRolesWrite e w op d) \<noteq> Ok None \<Longrightarrow> snd (pathRolesWrite e w op d) = w"
  by (auto simp add: pathRolesWrite_def setRole_def storage_Put_def Let_def
      split: option.splits outcome.splits if_splits)


lemma stub_getRole: "getRole stub_env r1_world ''r1'' = Ok (Some r1_role)"
  by (simp add: getRole_def storage_Get_def stub_env_def r1_world_def)

text \<open>
  C5. When the record an upsert has built has \<open>max_ttl > 0\<close> and \<open>ttl > max_ttl\<close>,
  \<open>pathRolesWrite\<close> answers with the error response "ttl cannot be greater than max_ttl"
  (a response, not a Go error) and the state, the stored record included, is as before.
  More generally, every upsert that does not succeed leaves the state as it was.
\<close>

theorem pathRolesWrite_rejects_ttl_above_max:
  "(fd_name d = Some name \<and> getRole e w name = Ok found
      \<and> \<not> (fd_username d = None \<and> op = CreateOperation)
      \<and> role_MaxTTL (upsert_candidate found op d) > 0
      \<and> role_TTL (upsert_candidate found op d) > role_MaxTTL (upsert_candidate found op d) \<longrightarrow>
        pathRolesWrite e w op d
          = (Ok (Some (ErrorResponse ''ttl cannot be greater than max_ttl'')), w))
   \<and> (fst (pathRolesWrite e w op d) \<noteq> Ok None \<longrightarrow> snd (pathRolesWrite e w op d) = w)"
  using pathRolesWrite_eq [of d name e w found op]
        pathRolesWrite_failure_keeps_world [of e w op d]
  by (simp add: Let_def)

theorem pathRolesWrite_rejects_ttl_above_max_witness:
  "fd_name (no_fields\<lparr>fd_name := Some ''r1'', fd_ttl := Some 300\<rparr>) = Some ''r1''
   \<and> getRole stub_env r1_world ''r1'' = Ok (Some r1_role)
   \<and> \<not> (fd_username (no_fields\<lparr>fd_name := Some ''r1'', fd_ttl := Some 300\<rparr>) = None
          \<and> UpdateOperation = CreateOperation)
   \<and> role_MaxTTL (upsert_candidate (Some r1_role) UpdateOperation
        (no_fields\<lparr>fd_name := Some ''r1'', fd_ttl := Some 300\<rparr>)) = 120000000000
   \<and> role_TTL (upsert_candidate (Some r1_role) UpdateOperation
        (no_fields\<lparr>fd_name := Some ''r1'', fd_ttl := Some 300\<rparr>)) = 300000000000
   \<and> pathRolesWrite stub_env r1_world UpdateOperation
        (no_fields\<lparr>fd_name := Some ''r1'', fd_ttl := Some 300\<rparr>)
       = (Ok (Some (ErrorResponse ''ttl cannot be greater than max_ttl'')), r1_world)
   \<and> storage r1_world ''role/r1'' = Some (RoleJSON r1_role)"
  using pathRolesWrite_rejects_ttl_above_max
          [of "no_fields\<lparr>fd_name := Some ''r1'', fd_ttl := Some 300\<rparr>" "''r1''" stub_env
              r1_world "Some r1_role" UpdateOperation]
        stub_getRole
  by (simp add: no_fields_def upsert_candidate_def r1_role_def new_myRoleEntry_def
      seconds_def wrap64_def Second_def r1_world_def)











section \<open>Reading the configuration\<close>

lemma pathConfigRead_redacts_password:
  assumes "getConfig e w = Ok (Some cfg)"
  shows "pathConfigRead e w
           = (Ok (Some (Response [''username'' \<mapsto> VString (cfg_Username cfg),
                                 ''url'' \<mapsto> VString (cfg_URL cfg)] None)), w)"
    and "dom [''username'' \<mapsto> VString (cfg_Username cfg), ''url'' \<mapsto> VString (cfg_URL cfg)]
           = {''username'', ''url''}"
  using assms by (auto simp add: pathConfigRead_def)

text \<open>
  C2. With no configuration record stored, \<open>pathConfigRead\<close> neither returns an absent
  result nor an error: \<open>getConfig\<close> hands back a nil record and the read of its fields
  panics.
\<close>

theorem pathConfigRead_unconfigured_panics:
  "getConfig stub_env empty_world = Ok None
   \<and> pathConfigRead stub_env empty_world
       = (Panic ''invalid memory address or nil pointer dereference'', empty_world)"
  by (simp add: pathConfigRead_def getConfig_def storage_Get_def configStoragePath_def
      stub_env_def empty_world_def)

section \<open>Issuance\<close>

lemma createUserCreds_lease:
  assumes "backend_createToken e w role = (Ok token, w1)"
  shows "createUserCreds e w role
           = (Ok (Some (Response [''token'' \<mapsto> VString (tok_Token token),
                                 ''token_id'' \<mapsto> VString (tok_TokenID token),
                                 ''user_id'' \<mapsto> VInt (tok_UserID token),
                                 ''username'' \<mapsto> VString (tok_Username token)]
                (Some \<lparr>sec_TTL = (if role_TTL role > 0 then role_TTL role else 0),
                       sec_MaxTTL = (if role_MaxTTL role > 0 then role_MaxTTL role else 0),
                       sec_InternalData = [''token'' \<mapsto> VString (tok_Token token),
                                           ''role'' \<mapsto> VString (role_Username role)]\<rparr>))),
              w1)"
  using assms by (simp add: createUserCreds_def Secret_Response_def Let_def)

lemma stub_issue:
  "pathCredentialsRead stub_env r1_world (no_fields\<lparr>fd_name := Some ''r1''\<rparr>)
     = (Ok (Some (Response [''token'' \<mapsto> VString ''jwt1'', ''token_id'' \<mapsto> VString ''id-1'',
                            ''user_id'' \<mapsto> VInt 7, ''username'' \<mapsto> VString ''alice'']
                           (Some r1_issued_lease))),
        r1_issued_world)"
proof -
  have tok: "backend_createToken stub_env r1_world r1_role
               = (Ok \<lparr>tok_UserID = 7, tok_Username = ''alice'', tok_TokenID = ''id-1'',
                      tok_Token = ''jwt1''\<rparr>, r1_issued_world)"
    unfolding backend_createToken_def stub_getClient
    by (simp add: createToken_def Let_def stub_env_def r1_role_def r1_issued_world_def
        new_myRoleEntry_def)
  have "createUserCreds stub_env r1_world r1_role
          = (Ok (Some (Response [''token'' \<mapsto> VString ''jwt1'', ''token_id'' \<mapsto> VString ''id-1'',
                            ''user_id'' \<mapsto> VInt 7, ''username'' \<mapsto> VString ''alice'']
                           (Some r1_issued_lease))),
             r1_issued_world)"
    unfolding createUserCreds_def tok
    by (simp add: Secret_Response_def Let_def r1_issued_lease_def r1_role_def
        new_myRoleEntry_def stub_durations)
  then show ?thesis
    by (simp add: pathCredentialsRead_def stub_getRole no_fields_def)
qed

text \<open>
  C4. Issuing against the role stored under the name \<open>r1\<close>, whose username is \<open>alice\<close>,
  yields a lease whose internal \<open>role\<close> entry is \<open>alice\<close>, the role's username, not the
  name \<open>r1\<close> it is stored under; renewing that very lease then looks up \<open>role/alice\<close>
  and fails although \<open>r1\<close> is still stored.
\<close>

theorem createUserCreds_binds_username_not_role_name:
  "storage r1_world ''role/r1'' = Some (RoleJSON r1_role)
   \<and> fst (pathCredentialsRead stub_env r1_world (no_fields\<lparr>fd_name := Some ''r1''\<rparr>))
       = Ok (Some (Response [''token'' \<mapsto> VString ''jwt1'', ''token_id'' \<mapsto> VString ''id-1'',
                            ''user_id'' \<mapsto> VInt 7, ''username'' \<mapsto> VString ''alice'']
                           (Some r1_issued_lease)))
   \<and> sec_InternalData r1_issued_lease ''role'' = Some (VString ''alice'')
   \<and> storage r1_issued_world ''role/r1'' = Some (RoleJSON r1_role)
   \<and> tokenRenew stub_env r1_issued_world r1_issued_lease
       = (Fault ''error retrieving role: role is nil'', r1_issued_lease, r1_issued_world)"
proof (intro conjI)
  show "storage r1_world ''role/r1'' = Some (RoleJSON r1_role)"
    by (simp add: r1_world_def)
  show "fst (pathCredentialsRead stub_env r1_world (no_fields\<lparr>fd_name := Some ''r1''\<rparr>))
       = Ok (Some (Response [''token'' \<mapsto> VString ''jwt1'', ''token_id'' \<mapsto> VString ''id-1'',
                            ''user_id'' \<mapsto> VInt 7, ''username'' \<mapsto> VString ''alice'']
                           (Some r1_issued_lease)))"
    by (simp add: stub_issue)
  show "sec_InternalData r1_issued_lease ''role'' = Some (VString ''alice'')"
    by (simp add: r1_issued_lease_def)
  show "storage r1_issued_world ''role/r1'' = Some (RoleJSON r1_role)"
    by (simp add: r1_issued_world_def r1_world_def)
  show "tokenRenew stub_env r1_issued_world r1_issued_lease
       = (Fault ''error retrieving role: role is nil'', r1_issued_lease, r1_issued_world)"
  proof (rule tokenRenew_role_gone_msg [where n = "''alice''"])
    show "sec_InternalData r1_issued_lease ''role'' = Some (VString ''alice'')"
      by (simp add: r1_issued_lease_def)
    show "storage r1_issued_world (''role/'' @ ''alice'') = None"
      by (simp add: r1_issued_world_def r1_world_def)
    show "''alice'' \<noteq> []" by simp
    show "Get_err stub_env (''role/'' @ ''alice'') = None"
      by (simp add: stub_env_def)
  qed
qed

end
